theory Spec2Isabelle
  imports Main
begin

section \<open>Data model (types/index.ts)\<close>

text \<open>
  The enum \<^verbatim>\<open>UserRole\<close> and the enum \<^verbatim>\<open>Permission\<close> are string enums: at run time a
  role is the string the server sent, so roles and permissions are strings and the
  enum members are constants.
\<close>

type_synonym UserRole = string
type_synonym Permission = string

definition USER :: UserRole where "USER = ''user''"
definition PREMIUM :: UserRole where "PREMIUM = ''premium''"
definition MODERATOR :: UserRole where "MODERATOR = ''moderator''"
definition ADMIN :: UserRole where "ADMIN = ''admin''"
definition SUPER_ADMIN :: UserRole where "SUPER_ADMIN = ''super_admin''"

lemmas UserRole_defs = USER_def PREMIUM_def MODERATOR_def ADMIN_def SUPER_ADMIN_def

text \<open>
  \<^verbatim>\<open>interface User\<close>. The members \<^verbatim>\<open>metadata\<close>, \<^verbatim>\<open>preferences\<close> and \<^verbatim>\<open>customData\<close> are
  carried by the server's object and read by no operation modelled here; they are left
  out. \<^verbatim>\<open>permissions\<close> is optional in the model because the access check reads it as
  \<^verbatim>\<open>user.permissions || []\<close>.
\<close>

record User =
  uid :: string
  email :: string
  displayName :: "string option"
  photoURL :: "string option"
  phone :: "string option"
  role :: UserRole
  permissions :: "Permission list option"
  isActive :: bool

text \<open>\<^verbatim>\<open>interface AuthState\<close>; \<^verbatim>\<open>T | null\<close> is \<open>T option\<close>.\<close>

record AuthState =
  user :: "User option"
  token :: "string option"
  refreshToken :: "string option"
  loading :: bool
  error :: "string option"
  isAuthenticated :: bool
  isAdmin :: bool
  isSuperAdmin :: bool

section \<open>Property reads on object literals\<close>

text \<open>
  Both lookup tables of the code are plain object literals read with a computed key,
  \<^verbatim>\<open>table[key] || fallback\<close>. Such a read finds the literal's own entry under the key, and
  otherwise the member of that name on \<^verbatim>\<open>Object.prototype\<close>, the prototype of every
  object literal; only when neither exists is the result \<^verbatim>\<open>undefined\<close>.
  \<open>objectPrototypeMembers\<close> lists the names that ECMAScript (with its Annex B) defines
  on \<^verbatim>\<open>Object.prototype\<close>. Under \<^verbatim>\<open>__proto__\<close> the read yields \<^verbatim>\<open>Object.prototype\<close> itself,
  under \<^verbatim>\<open>constructor\<close> the function \<^verbatim>\<open>Object\<close>, under every other name the method of that
  name.
\<close>

datatype 'a member =
    Own 'a
  | Inherited string

definition objectPrototypeMembers :: "string list" where
  "objectPrototypeMembers =
     [''constructor'', ''hasOwnProperty'', ''isPrototypeOf'', ''propertyIsEnumerable'',
      ''toLocaleString'', ''toString'', ''valueOf'', ''__proto__'',
      ''__defineGetter__'', ''__defineSetter__'', ''__lookupGetter__'', ''__lookupSetter__'']"

definition getProperty :: "(string \<times> 'a) list \<Rightarrow> string \<Rightarrow> 'a member option" where
  "getProperty entries key =
     (case map_of entries key of
        Some v \<Rightarrow> Some (Own v)
      | None \<Rightarrow> if key \<in> set objectPrototypeMembers then Some (Inherited key) else None)"

text \<open>
  \<^verbatim>\<open>read || fallback\<close>. The own values of the two tables (the numbers 1 to 5, non-empty
  strings) and the inherited members (functions, an object) are all truthy, so the
  fallback is taken exactly when the read is \<^verbatim>\<open>undefined\<close>.
\<close>

definition orDefault :: "'a member option \<Rightarrow> 'a \<Rightarrow> 'a member" where
  "orDefault v fallback = (case v of None \<Rightarrow> Own fallback | Some m \<Rightarrow> m)"

text \<open>
  The string that \<^verbatim>\<open>ToPrimitive\<close> yields for an inherited member: the source text of a
  built-in function, or \<^verbatim>\<open>[object Object]\<close> for \<^verbatim>\<open>Object.prototype\<close>. Engines differ in the
  white space after the parameter list only.
\<close>

definition memberText :: "string \<Rightarrow> string" where
  "memberText name =
     (if name = ''__proto__'' then ''[object Object]''
      else ''function '' @ (if name = ''constructor'' then ''Object'' else name)
             @ ''() { [native code] }'')"

text \<open>Comparison of two strings by their code units.\<close>

fun stringLess :: "string \<Rightarrow> string \<Rightarrow> bool" where
  "stringLess [] [] = False"
| "stringLess [] (y # ys) = True"
| "stringLess (x # xs) [] = False"
| "stringLess (x # xs) (y # ys) =
     ((of_char x :: nat) < of_char y \<or> (x = y \<and> stringLess xs ys))"

text \<open>
  \<^verbatim>\<open>a < b\<close> on what a read of the role table yields. Two numbers compare as numbers. A
  number and an inherited member: the member becomes a string that is no numeral, so
  the comparison is one with NaN and is false. Two inherited members compare as strings.
\<close>

fun jsLess :: "nat member \<Rightarrow> nat member \<Rightarrow> bool" where
  "jsLess (Own a) (Own b) = (a < b)"
| "jsLess (Inherited k) (Inherited l) = stringLess (memberText k) (memberText l)"
| "jsLess (Own a) (Inherited l) = False"
| "jsLess (Inherited k) (Own b) = False"

section \<open>Session state store (providers/AuthProvider.tsx)\<close>

text \<open>
  \<^verbatim>\<open>type AuthAction\<close>. \<open>OTHER\<close> stands for an action object whose \<^verbatim>\<open>type\<close> is none of the
  seven: the reducer's \<^verbatim>\<open>default\<close> branch.
\<close>

datatype AuthAction =
    SET_LOADING bool
  | SET_USER "User option"
  | SET_TOKEN "string option"
  | SET_REFRESH_TOKEN "string option"
  | SET_ERROR "string option"
  | CLEAR_ERROR
  | LOGOUT
  | OTHER

definition initialState :: AuthState where
  "initialState =
     \<lparr> user = None, token = None, refreshToken = None, loading = True, error = None,
       isAuthenticated = False, isAdmin = False, isSuperAdmin = False \<rparr>"

text \<open>
  \<^verbatim>\<open>user?.role === UserRole.ADMIN || user?.role === UserRole.SUPER_ADMIN || false\<close>:
  with no user the optional chain yields \<^verbatim>\<open>undefined\<close>, which equals no role.
\<close>

fun authReducer :: "AuthState \<Rightarrow> AuthAction \<Rightarrow> AuthState" where
  "authReducer state (SET_LOADING payload) = state\<lparr>loading := payload\<rparr>"
| "authReducer state (SET_USER payload) =
     state\<lparr> user := payload,
            isAuthenticated := (payload \<noteq> None),
            isAdmin := (case payload of
                          None \<Rightarrow> False
                        | Some u \<Rightarrow> role u = ADMIN \<or> role u = SUPER_ADMIN),
            isSuperAdmin := (case payload of
                               None \<Rightarrow> False
                             | Some u \<Rightarrow> role u = SUPER_ADMIN),
            loading := False,
            error := None \<rparr>"
| "authReducer state (SET_TOKEN payload) = state\<lparr>token := payload\<rparr>"
| "authReducer state (SET_REFRESH_TOKEN payload) = state\<lparr>refreshToken := payload\<rparr>"
| "authReducer state (SET_ERROR payload) = state\<lparr>error := payload, loading := False\<rparr>"
| "authReducer state CLEAR_ERROR = state\<lparr>error := None\<rparr>"
| "authReducer state LOGOUT = initialState\<lparr>loading := False\<rparr>"
| "authReducer state OTHER = state"

text \<open>
  \<^verbatim>\<open>useReducer(authReducer, initialState)\<close>: the state after a sequence of dispatched
  actions.
\<close>

definition dispatchAll :: "AuthAction list \<Rightarrow> AuthState" where
  "dispatchAll actions = foldl authReducer initialState actions"

text \<open>
  What \<^verbatim>\<open>login\<close>, \<^verbatim>\<open>loginWithFirebase\<close> and \<^verbatim>\<open>register\<close> of the provider dispatch when the
  service call succeeds with \<^verbatim>\<open>{ user, token, refreshToken }\<close>.
\<close>

definition loginDispatches :: "User \<Rightarrow> string \<Rightarrow> string \<Rightarrow> AuthAction list" where
  "loginDispatches u t r =
     [SET_LOADING True, CLEAR_ERROR, SET_USER (Some u), SET_TOKEN (Some t),
      SET_REFRESH_TOKEN (Some r)]"

section \<open>Access-control evaluator (ProtectedRoute)\<close>

text \<open>
  \<^verbatim>\<open>const roleHierarchy: Record<UserRole, number>\<close>, the entries of the object literal;
  \<^verbatim>\<open>roleHierarchy[r] || 0\<close> is \<open>roleLevel r\<close>.
\<close>

definition roleHierarchy :: "(UserRole \<times> nat) list" where
  "roleHierarchy =
     [(USER, 1), (PREMIUM, 2), (MODERATOR, 3), (ADMIN, 4), (SUPER_ADMIN, 5)]"

definition roleLevel :: "UserRole \<Rightarrow> nat member" where
  "roleLevel r = orDefault (getProperty roleHierarchy r) 0"


text \<open>What the component returns: one of its five \<^verbatim>\<open>return\<close> statements.\<close>

datatype rendered =
    LoadingView
  | FallbackView
  | RoleDeniedView
  | PermissionsDeniedView
  | ChildrenView

text \<open>
  The props \<^verbatim>\<open>requiredRole?\<close> and \<^verbatim>\<open>requiredPermissions?\<close> are optional. The test
  \<^verbatim>\<open>requiredRole && ...\<close> is false for an absent and for an empty role string.
  \<^verbatim>\<open>Array.prototype.includes\<close> on strings is equality of strings.
\<close>

definition ProtectedRoute ::
  "AuthState \<Rightarrow> UserRole option \<Rightarrow> Permission list option \<Rightarrow> rendered" where
  "ProtectedRoute auth requiredRole requiredPermissions =
     (if loading auth then LoadingView
      else case user auth of
        None \<Rightarrow> FallbackView
      | Some u \<Rightarrow>
          if \<not> isAuthenticated auth then FallbackView
          else if (case requiredRole of
                     None \<Rightarrow> False
                   | Some r \<Rightarrow> r \<noteq> [] \<and> role u \<noteq> r \<and> jsLess (roleLevel (role u)) (roleLevel r))
            then RoleDeniedView
          else if (case requiredPermissions of
                     None \<Rightarrow> False
                   | Some ps \<Rightarrow>
                       0 < length ps \<and>
                       \<not> list_all (\<lambda>permission.
                            permission \<in> set (case permissions u of None \<Rightarrow> [] | Some us \<Rightarrow> us)) ps)
            then PermissionsDeniedView
          else ChildrenView)"

text \<open>The session of a signed-in user, as \<^verbatim>\<open>useAuth()\<close> hands it to the component.\<close>

definition signedIn :: "User \<Rightarrow> AuthState" where
  "signedIn u = authReducer initialState (SET_USER (Some u))"

definition exampleUser :: "UserRole \<Rightarrow> Permission list \<Rightarrow> User" where
  "exampleUser r ps =
     \<lparr> uid = ''u1'', email = ''a@b.com'', displayName = None, photoURL = None, phone = None,
       role = r, permissions = Some ps, isActive = True \<rparr>"

section \<open>Transport client and auth session service (services/api.service.ts)\<close>

subsection \<open>Errors and the response envelope\<close>

datatype AuthErrorCode =
    INVALID_CREDENTIALS
  | TOKEN_EXPIRED
  | INSUFFICIENT_PERMISSIONS
  | NETWORK_ERROR
  | VALIDATION_ERROR
  | USER_NOT_FOUND
  | EMAIL_ALREADY_EXISTS
  | UNKNOWN_ERROR

text \<open>
  \<^verbatim>\<open>interface AuthError\<close>. \<^verbatim>\<open>code\<close> holds what \<^verbatim>\<open>mapErrorCode\<close> returns at run time;
  \<^verbatim>\<open>details?: any\<close> is kept as an opaque string.
\<close>

record AuthError =
  code :: "AuthErrorCode member"
  message :: string
  details :: "string option"

text \<open>
  What a \<^verbatim>\<open>throw\<close> or a rejected promise carries: the object built by \<^verbatim>\<open>handleError\<close>,
  a plain \<^verbatim>\<open>new Error(message)\<close>, or the \<^verbatim>\<open>TypeError\<close> of destructuring an absent
  \<^verbatim>\<open>response.data.data\<close>.
\<close>

datatype thrown =
    Normalized AuthError
  | PlainError string
  | TypeError

text \<open>
  \<^verbatim>\<open>interface ApiResponse\<close>, the JSON envelope. \<^verbatim>\<open>data\<close> has type \<^verbatim>\<open>any\<close> in the source; the
  model gives it the three members that the operations destructure.
\<close>

record ApiErrorBody =
  err_code :: string
  err_message :: string
  err_details :: "string option"

record ResponseData =
  data_user :: User
  data_token :: string
  data_refreshToken :: string

record ApiResponse =
  success :: bool
  data :: "ResponseData option"
  resp_message :: "string option"
  resp_error :: "ApiErrorBody option"

text \<open>
  What the network hands back for one request: a response with its HTTP status, no
  response at all (\<^verbatim>\<open>error.request\<close> is set, \<^verbatim>\<open>error.response\<close> is not), or a failure before
  anything was sent (only \<^verbatim>\<open>error.message\<close>). The body of a response is an envelope
  object, as the type \<^verbatim>\<open>AxiosResponse<ApiResponse>\<close> of the calls declares. The client is
  created with axios' default \<^verbatim>\<open>validateStatus\<close>: a status from 200 to 299 fulfils the promise,
  any other rejects it.
\<close>

datatype outcome =
    Response nat ApiResponse
  | NoResponse
  | NotSent "string option"

fun statusOf :: "outcome \<Rightarrow> nat option" where
  "statusOf (Response status d) = Some status"
| "statusOf NoResponse = None"
| "statusOf (NotSent m) = None"

definition validateStatus :: "nat \<Rightarrow> bool" where
  "validateStatus status \<longleftrightarrow> 200 \<le> status \<and> status < 300"

text \<open>JavaScript truthiness of a \<^verbatim>\<open>string | null\<close>, and \<^verbatim>\<open>s || fallback\<close>.\<close>

definition truthy :: "string option \<Rightarrow> bool" where
  "truthy s = (case s of None \<Rightarrow> False | Some x \<Rightarrow> x \<noteq> [])"

definition orElse :: "string option \<Rightarrow> string \<Rightarrow> string" where
  "orElse s fallback = (case s of None \<Rightarrow> fallback | Some x \<Rightarrow> if x = [] then fallback else x)"

text \<open>
  \<^verbatim>\<open>codeMap\<close>, the entries of the object literal, and \<^verbatim>\<open>codeMap[code] || UNKNOWN_ERROR\<close>.
  The result is a member of the enum or, for a code that names a member of
  \<^verbatim>\<open>Object.prototype\<close>, that member.
\<close>

definition codeMap :: "(string \<times> AuthErrorCode) list" where
  "codeMap =
     [(''INVALID_CREDENTIALS'', INVALID_CREDENTIALS),
      (''TOKEN_EXPIRED'', TOKEN_EXPIRED),
      (''INSUFFICIENT_PERMISSIONS'', INSUFFICIENT_PERMISSIONS),
      (''VALIDATION_ERROR'', VALIDATION_ERROR),
      (''USER_NOT_FOUND'', USER_NOT_FOUND),
      (''EMAIL_ALREADY_EXISTS'', EMAIL_ALREADY_EXISTS)]"

definition mapErrorCode :: "string \<Rightarrow> AuthErrorCode member" where
  "mapErrorCode c = orDefault (getProperty codeMap c) UNKNOWN_ERROR"

fun handleError :: "outcome \<Rightarrow> AuthError" where
  "handleError (Response status d) =
     \<lparr> code = mapErrorCode
                (orElse (case resp_error d of None \<Rightarrow> None | Some e \<Rightarrow> Some (err_code e))
                   ''UNKNOWN_ERROR''),
       message = orElse (resp_message d) ''An error occurred'',
       details = (case resp_error d of None \<Rightarrow> None | Some e \<Rightarrow> err_details e) \<rparr>"
| "handleError NoResponse =
     \<lparr> code = Own NETWORK_ERROR, message = ''Network error occurred'', details = None \<rparr>"
| "handleError (NotSent m) =
     \<lparr> code = Own UNKNOWN_ERROR, message = orElse m ''Unknown error occurred'', details = None \<rparr>"

subsection \<open>The service object and its credential store\<close>

text \<open>
  \<^verbatim>\<open>interface SdkConfig\<close>. \<open>onTokenExpired\<close> says whether a callback is registered; the
  callback itself is opaque, the service counts its invocations.
\<close>

record SdkConfig =
  apiUrl :: string
  tokenStorageKey :: "string option"
  refreshTokenStorageKey :: "string option"
  onTokenExpired :: bool

text \<open>An axios request configuration; \<open>retry\<close> is the \<^verbatim>\<open>_retry\<close> mark.\<close>

record request =
  http_method :: string
  url :: string
  body :: "(string \<times> string) list"
  Authorization :: "string option"
  retry :: bool

text \<open>
  \<^verbatim>\<open>class ApiService\<close>: its private members, the browser's \<^verbatim>\<open>localStorage\<close>, the log of
  the requests handed to the network (oldest first) and the number of times
  \<^verbatim>\<open>config.onTokenExpired\<close> has been called.
\<close>

record ApiService =
  config :: SdkConfig
  this_token :: "string option"
  this_refreshToken :: "string option"
  localStorage :: "string \<rightharpoonup> string"
  sent :: "request list"
  tokenExpiredCalls :: nat

definition tokenKey :: "ApiService \<Rightarrow> string" where
  "tokenKey svc = orElse (tokenStorageKey (config svc)) ''spirit_ai_token''"

definition refreshTokenKey :: "ApiService \<Rightarrow> string" where
  "refreshTokenKey svc = orElse (refreshTokenStorageKey (config svc)) ''spirit_ai_refresh_token''"

definition loadTokensFromStorage :: "ApiService \<Rightarrow> ApiService" where
  "loadTokensFromStorage svc =
     svc\<lparr> this_token := localStorage svc (tokenKey svc),
          this_refreshToken := localStorage svc (refreshTokenKey svc) \<rparr>"

definition saveTokensToStorage :: "ApiService \<Rightarrow> string \<Rightarrow> string \<Rightarrow> ApiService" where
  "saveTokensToStorage svc tok refreshTok =
     svc\<lparr> this_token := Some tok,
          this_refreshToken := Some refreshTok,
          localStorage := (localStorage svc)(tokenKey svc \<mapsto> tok, refreshTokenKey svc \<mapsto> refreshTok) \<rparr>"

definition clearTokensFromStorage :: "ApiService \<Rightarrow> ApiService" where
  "clearTokensFromStorage svc =
     svc\<lparr> this_token := None,
          this_refreshToken := None,
          localStorage := (localStorage svc)(tokenKey svc := None, refreshTokenKey svc := None) \<rparr>"

text \<open>The constructor: no request sent yet, tokens loaded from storage.\<close>

definition newApiService :: "SdkConfig \<Rightarrow> (string \<rightharpoonup> string) \<Rightarrow> ApiService" where
  "newApiService cfg storage =
     loadTokensFromStorage
       \<lparr> config = cfg, this_token = None, this_refreshToken = None, localStorage = storage,
         sent = [], tokenExpiredCalls = 0 \<rparr>"

text \<open>\<^verbatim>\<open>if (this.config.onTokenExpired) { this.config.onTokenExpired(); }\<close>\<close>

definition notifyTokenExpired :: "ApiService \<Rightarrow> ApiService" where
  "notifyTokenExpired svc =
     (if onTokenExpired (config svc) then svc\<lparr>tokenExpiredCalls := Suc (tokenExpiredCalls svc)\<rparr>
      else svc)"

text \<open>\<^verbatim>\<open>`Bearer ${this.token}`\<close>\<close>

definition bearer :: "ApiService \<Rightarrow> string" where
  "bearer svc = ''Bearer '' @ (case this_token svc of None \<Rightarrow> ''null'' | Some t \<Rightarrow> t)"

text \<open>The request interceptor.\<close>

definition requestInterceptor :: "ApiService \<Rightarrow> request \<Rightarrow> request" where
  "requestInterceptor svc cfg =
     (if truthy (this_token svc) then cfg\<lparr>Authorization := Some (bearer svc)\<rparr> else cfg)"

text \<open>
  Handing a request to the network: the request interceptor runs, and the request as
  sent is appended to the log.
\<close>

definition send :: "ApiService \<Rightarrow> request \<Rightarrow> ApiService \<times> request" where
  "send svc req =
     (let cfg = requestInterceptor svc req in (svc\<lparr>sent := sent svc @ [cfg]\<rparr>, cfg))"

definition newRequest :: "string \<Rightarrow> string \<Rightarrow> (string \<times> string) list \<Rightarrow> request" where
  "newRequest m u b =
     \<lparr> http_method = m, url = u, body = b, Authorization = None, retry = False \<rparr>"

text \<open>\<^verbatim>\<open>this.api.post('/api/auth/refresh', { refreshToken: this.refreshToken })\<close>\<close>

definition refreshRequest :: "ApiService \<Rightarrow> request" where
  "refreshRequest svc =
     newRequest ''POST'' ''/api/auth/refresh''
       [(''refreshToken'', case this_refreshToken svc of None \<Rightarrow> ''null'' | Some r \<Rightarrow> r)]"

text \<open>
  \<^verbatim>\<open>refreshAccessToken\<close> after its \<^verbatim>\<open>await\<close>, once the refresh call has been fulfilled with
  the envelope \<open>d\<close>: it returns true or false, or throws.
\<close>

definition refreshFulfilled :: "ApiService \<Rightarrow> ApiResponse \<Rightarrow> (thrown + bool) \<times> ApiService" where
  "refreshFulfilled svc d =
     (if success d then
        (case data d of
           None \<Rightarrow> (Inl TypeError, svc)
         | Some p \<Rightarrow>
             (Inr True,
              svc\<lparr> this_token := Some (data_token p),
                   localStorage := (localStorage svc)(tokenKey svc \<mapsto> data_token p) \<rparr>))
      else (Inr False, clearTokensFromStorage svc))"

subsection \<open>The response interceptor as event handlers\<close>

text \<open>
  The code is asynchronous: a function runs until its next \<^verbatim>\<open>await\<close> and is resumed when
  the awaited promise settles, and between the two other handlers may run. The model
  cuts the error handler of the response interceptor at its one \<^verbatim>\<open>await\<close>:
  \<open>responseRejected\<close> is the handler from its entry up to \<^verbatim>\<open>await this.refreshAccessToken()\<close>
  (including the start of \<^verbatim>\<open>refreshAccessToken\<close>, up to its own \<^verbatim>\<open>await this.api.post(...)\<close>);
  \<open>fulfil\<close> and \<open>reject\<close> resume whoever awaits a request when it settles.

  A \<open>waiter\<close> is who awaits a request in flight: \<open>Caller\<close>, the code that called
  \<^verbatim>\<open>this.api\<close>; or \<open>Refreshing originalRequest failure w\<close>, the \<^verbatim>\<open>refreshAccessToken\<close> started by
  the error handler of \<open>originalRequest\<close> (already marked \<^verbatim>\<open>_retry\<close>) that failed with
  \<open>failure\<close>, the handler's own promise being awaited by \<open>w\<close>.

  A handler ends with the promise settled for the caller, or with one more request in
  flight.
\<close>

datatype waiter =
    Caller
  | Refreshing request outcome waiter

datatype step =
    Settled "thrown + ApiResponse"
  | Pending request waiter

text \<open>The errors held by the error handlers that wait, innermost first.\<close>

primrec failuresOf :: "waiter \<Rightarrow> outcome list" where
  "failuresOf Caller = []"
| "failuresOf (Refreshing originalRequest failure w) = failure # failuresOf w"

text \<open>
  The awaited request was rejected with \<open>err\<close>. For the caller that is the result. In
  \<^verbatim>\<open>refreshAccessToken\<close> the \<^verbatim>\<open>await\<close> throws, the error handler's \<^verbatim>\<open>catch\<close> clears the
  tokens and calls \<^verbatim>\<open>onTokenExpired\<close>, and the handler rejects with the normalized
  original error.
\<close>

primrec reject :: "ApiService \<Rightarrow> waiter \<Rightarrow> thrown \<Rightarrow> ApiService \<times> step" where
  "reject svc Caller err = (svc, Settled (Inl err))"
| "reject svc (Refreshing originalRequest failure w) err =
     reject (notifyTokenExpired (clearTokensFromStorage svc)) w (Normalized (handleError failure))"

text \<open>
  The awaited request was fulfilled with the envelope \<open>d\<close>. In \<^verbatim>\<open>refreshAccessToken\<close> the rest
  of the function runs; on true the error handler sets the header and re-issues the
  original request (\<^verbatim>\<open>return this.api(originalRequest)\<close>), on false it falls through to
  \<^verbatim>\<open>Promise.reject(this.handleError(error))\<close>, on a throw its \<^verbatim>\<open>catch\<close> runs first.
\<close>

fun fulfil :: "ApiService \<Rightarrow> waiter \<Rightarrow> ApiResponse \<Rightarrow> ApiService \<times> step" where
  "fulfil svc Caller d = (svc, Settled (Inr d))"
| "fulfil svc (Refreshing originalRequest failure w) d =
     (case refreshFulfilled svc d of
        (Inr True, svc1) \<Rightarrow>
          (let (svc2, cfg) = send svc1 (originalRequest\<lparr>Authorization := Some (bearer svc1)\<rparr>)
           in (svc2, Pending cfg w))
      | (Inr False, svc1) \<Rightarrow> reject svc1 w (Normalized (handleError failure))
      | (Inl refreshError, svc1) \<Rightarrow>
          reject (notifyTokenExpired (clearTokensFromStorage svc1)) w
            (Normalized (handleError failure)))"

text \<open>
  The error handler of the response interceptor, entered with the failed request's
  configuration and the error. \<^verbatim>\<open>refreshAccessToken\<close> begins by throwing when no refresh
  token is stored, which the handler's \<^verbatim>\<open>catch\<close> receives.
\<close>

definition responseRejected :: "ApiService \<Rightarrow> request \<Rightarrow> waiter \<Rightarrow> outcome \<Rightarrow> ApiService \<times> step" where
  "responseRejected svc originalRequest w failure =
     (if statusOf failure = Some 401 \<and> truthy (this_refreshToken svc) \<and> \<not> retry originalRequest
      then
        (let marked = originalRequest\<lparr>retry := True\<rparr> in
         if \<not> truthy (this_refreshToken svc)
         then reject svc (Refreshing marked failure w) (PlainError ''No refresh token available'')
         else (let (svc1, cfg) = send svc (refreshRequest svc)
               in (svc1, Pending cfg (Refreshing marked failure w))))
      else reject svc w (Normalized (handleError failure)))"

text \<open>The network answers the request \<open>cfg\<close> awaited by \<open>w\<close>.\<close>

definition settle :: "ApiService \<Rightarrow> request \<Rightarrow> waiter \<Rightarrow> outcome \<Rightarrow> ApiService \<times> step" where
  "settle svc cfg w out =
     (case out of
        Response status d \<Rightarrow>
          if validateStatus status then fulfil svc w d else responseRejected svc cfg w out
      | _ \<Rightarrow> responseRejected svc cfg w out)"

text \<open>
  Several requests in flight: the event loop runs one handler at a time, in the order
  in which the answers arrive. Each handler leaves its request settled or one request in
  flight.
\<close>

fun settleAll :: "ApiService \<Rightarrow> (request \<times> waiter \<times> outcome) list \<Rightarrow> ApiService \<times> step list" where
  "settleAll svc [] = (svc, [])"
| "settleAll svc ((cfg, w, out) # arrivals) =
     (let (svc1, st) = settle svc cfg w out;
          (svc2, sts) = settleAll svc1 arrivals
      in (svc2, st # sts))"

definition refreshCalls :: "ApiService \<Rightarrow> nat" where
  "refreshCalls svc = length (filter (\<lambda>r. url r = ''/api/auth/refresh'') (sent svc))"

subsection \<open>One caller at a time\<close>

text \<open>
  The remote service answers each request as a function of the log of requests sent so
  far, the last of which is the one it answers. A single caller awaits its request
  through the handlers until the promise settles; the fuel bounds the number of answers
  waited for, and \<open>None\<close> is a promise still pending.
\<close>

type_synonym network = "request list \<Rightarrow> outcome"

fun await :: "nat \<Rightarrow> network \<Rightarrow> ApiService \<times> step \<Rightarrow> ((thrown + ApiResponse) \<times> ApiService) option" where
  "await n net (svc, Settled r) = Some (r, svc)"
| "await 0 net (svc, Pending cfg w) = None"
| "await (Suc n) net (svc, Pending cfg w) = await n net (settle svc cfg w (net (sent svc)))"

text \<open>\<^verbatim>\<open>await this.api(req)\<close>\<close>

definition api :: "nat \<Rightarrow> network \<Rightarrow> ApiService \<Rightarrow> request \<Rightarrow> ((thrown + ApiResponse) \<times> ApiService) option" where
  "api n net svc req = (let (svc1, cfg) = send svc req in await n net (svc1, Pending cfg Caller))"

subsection \<open>Operations of the service\<close>

text \<open>
  \<^verbatim>\<open>register\<close> and \<^verbatim>\<open>login\<close> (and \<^verbatim>\<open>loginWithFirebase\<close>, the same with another URL and
  message): a rejected call propagates; a fulfilled one is checked for its \<^verbatim>\<open>success\<close>
  flag.
\<close>

definition authenticate ::
  "string \<Rightarrow> string \<Rightarrow> nat \<Rightarrow> network \<Rightarrow> ApiService \<Rightarrow> (string \<times> string) list
     \<Rightarrow> ((thrown + ResponseData) \<times> ApiService) option" where
  "authenticate path failed n net svc payload =
     (case api n net svc (newRequest ''POST'' path payload) of
        None \<Rightarrow> None
      | Some (Inl err, svc1) \<Rightarrow> Some (Inl err, svc1)
      | Some (Inr d, svc1) \<Rightarrow>
          if success d then
            (case data d of
               None \<Rightarrow> Some (Inl TypeError, svc1)
             | Some p \<Rightarrow> Some (Inr p, saveTokensToStorage svc1 (data_token p) (data_refreshToken p)))
          else Some (Inl (PlainError (orElse (resp_message d) failed)), svc1))"

definition register ::
  "nat \<Rightarrow> network \<Rightarrow> ApiService \<Rightarrow> (string \<times> string) list
     \<Rightarrow> ((thrown + ResponseData) \<times> ApiService) option" where
  "register = authenticate ''/api/auth/register'' ''Registration failed''"

definition login ::
  "nat \<Rightarrow> network \<Rightarrow> ApiService \<Rightarrow> string \<Rightarrow> string
     \<Rightarrow> ((thrown + ResponseData) \<times> ApiService) option" where
  "login n net svc em pw =
     authenticate ''/api/auth/login'' ''Login failed'' n net svc
       [(''email'', em), (''password'', pw)]"

definition refreshAccessToken ::
  "nat \<Rightarrow> network \<Rightarrow> ApiService \<Rightarrow> ((thrown + bool) \<times> ApiService) option" where
  "refreshAccessToken n net svc =
     (if \<not> truthy (this_refreshToken svc)
      then Some (Inl (PlainError ''No refresh token available''), svc)
      else case api n net svc (refreshRequest svc) of
             None \<Rightarrow> None
           | Some (Inl err, svc1) \<Rightarrow> Some (Inl err, svc1)
           | Some (Inr d, svc1) \<Rightarrow> Some (refreshFulfilled svc1 d))"

text \<open>\<^verbatim>\<open>logout\<close>: the \<^verbatim>\<open>catch\<close> is empty, so both results of the call continue alike.\<close>

definition logout :: "nat \<Rightarrow> network \<Rightarrow> ApiService \<Rightarrow> ((thrown + unit) \<times> ApiService) option" where
  "logout n net svc =
     (case api n net svc (newRequest ''POST'' ''/api/auth/logout'' []) of
        None \<Rightarrow> None
      | Some (Inl err, svc1) \<Rightarrow> Some (Inr (), clearTokensFromStorage svc1)
      | Some (Inr d, svc1) \<Rightarrow> Some (Inr (), clearTokensFromStorage svc1))"

text \<open>
  \<^verbatim>\<open>verifyToken\<close>: a rejected call and the \<^verbatim>\<open>TypeError\<close> of reading \<^verbatim>\<open>.user\<close> of an absent
  \<^verbatim>\<open>data\<close> both reach the \<^verbatim>\<open>catch\<close>.
\<close>

definition verifyToken :: "nat \<Rightarrow> network \<Rightarrow> ApiService \<Rightarrow> ((thrown + User option) \<times> ApiService) option" where
  "verifyToken n net svc =
     (if \<not> truthy (this_token svc) then Some (Inr None, svc)
      else case api n net svc (newRequest ''GET'' ''/api/auth/verify'' []) of
             None \<Rightarrow> None
           | Some (Inl err, svc1) \<Rightarrow> Some (Inr None, clearTokensFromStorage svc1)
           | Some (Inr d, svc1) \<Rightarrow>
               if success d then
                 (case data d of
                    None \<Rightarrow> Some (Inr None, clearTokensFromStorage svc1)
                  | Some p \<Rightarrow> Some (Inr (Some (data_user p)), svc1))
               else Some (Inr None, svc1))"

text \<open>
  \<^verbatim>\<open>logout\<close> of the provider (AuthProvider.tsx): \<^verbatim>\<open>try\<close>, \<^verbatim>\<open>catch\<close> that only logs, and
  \<^verbatim>\<open>finally { dispatch({ type: 'LOGOUT' }) }\<close>.
\<close>

definition providerLogout ::
  "nat \<Rightarrow> network \<Rightarrow> ApiService \<times> AuthState \<Rightarrow> ((thrown + unit) \<times> ApiService \<times> AuthState) option" where
  "providerLogout n net ctx =
     (case logout n net (fst ctx) of
        None \<Rightarrow> None
      | Some (r, svc1) \<Rightarrow> Some (Inr (), svc1, authReducer (snd ctx) LOGOUT))"

subsection \<open>Example services, requests and answers\<close>

text \<open>A stub server that answers the k-th request with the k-th entry, then stays silent.\<close>

definition scripted :: "outcome list \<Rightarrow> network" where
  "scripted outs log =
     (if 0 < length log \<and> length log \<le> length outs then outs ! (length log - 1) else NoResponse)"

definition envelope :: "bool \<Rightarrow> ResponseData option \<Rightarrow> string option \<Rightarrow> string option \<Rightarrow> ApiResponse" where
  "envelope ok d m c =
     \<lparr> success = ok, data = d, resp_message = m,
       resp_error = (case c of
                       None \<Rightarrow> None
                     | Some x \<Rightarrow> Some \<lparr> err_code = x, err_message = '''', err_details = None \<rparr>) \<rparr>"

definition exampleConfig :: SdkConfig where
  "exampleConfig =
     \<lparr> apiUrl = ''https://api.example'', tokenStorageKey = None, refreshTokenStorageKey = None,
       onTokenExpired = True \<rparr>"

text \<open>A service constructed over a storage that holds an access and a refresh token.\<close>

definition exampleService :: ApiService where
  "exampleService =
     newApiService exampleConfig
       [''spirit_ai_token'' \<mapsto> ''t0'', ''spirit_ai_refresh_token'' \<mapsto> ''r0'']"

definition tokenData :: "string \<Rightarrow> ResponseData" where
  "tokenData t = \<lparr> data_user = exampleUser USER [], data_token = t, data_refreshToken = ''r1'' \<rparr>"

text \<open>
  Several callers issue their requests one after the other, before any answer arrives.
\<close>

fun sendAll :: "ApiService \<Rightarrow> request list \<Rightarrow> ApiService \<times> request list" where
  "sendAll svc [] = (svc, [])"
| "sendAll svc (req # reqs) =
     (let (svc1, cfg) = send svc req;
          (svc2, cfgs) = sendAll svc1 reqs
      in (svc2, cfg # cfgs))"

text \<open>A service constructed over an empty storage.\<close>

definition signedOutService :: ApiService where
  "signedOutService = newApiService exampleConfig Map.empty"

definition profileRequest :: request where
  "profileRequest = newRequest ''GET'' ''/api/users/profile'' []"

definition usersRequest :: request where
  "usersRequest = newRequest ''GET'' ''/api/users/stats'' []"

definition unauthorized :: outcome where
  "unauthorized =
     Response 401 (envelope False None (Some ''Unauthorized'') (Some ''TOKEN_EXPIRED''))"

definition forbidden :: outcome where
  "forbidden =
     Response 403 (envelope False None (Some ''Refresh token revoked'') (Some ''TOKEN_EXPIRED''))"

definition refusedByFlag :: outcome where
  "refusedByFlag = Response 200 (envelope False None (Some ''Rejected'') None)"

definition serverError :: outcome where
  "serverError = Response 500 (envelope False None None None)"

text \<open>The answer to a refresh call that succeeds with the new access token \<open>t\<close>.\<close>

definition refreshed :: "string \<Rightarrow> outcome" where
  "refreshed t = Response 200 (envelope True (Some (tokenData t)) None None)"

text \<open>Every request in flight, awaited by its caller, receives the answer \<open>out\<close>.\<close>

definition arrive :: "outcome \<Rightarrow> request list \<Rightarrow> (request \<times> waiter \<times> outcome) list" where
  "arrive out cfgs = map (\<lambda>cfg. (cfg, Caller, out)) cfgs"

text \<open>
  The answers to the requests that a round of handlers left in flight, one answer for
  each handler in turn; a handler that settled its request awaits none.
\<close>

fun answerAll :: "step list \<Rightarrow> outcome list \<Rightarrow> (request \<times> waiter \<times> outcome) list" where
  "answerAll (Pending cfg w # steps) (out # outs) = (cfg, w, out) # answerAll steps outs"
| "answerAll (Settled r # steps) (out # outs) = answerAll steps outs"
| "answerAll steps outs = []"

text \<open>
  Two requests are in flight; then both are answered with 401; then the two refresh
  calls are answered with the new tokens t1 and t2.
\<close>

definition twoInFlight :: "ApiService \<times> request list" where
  "twoInFlight = sendAll exampleService [profileRequest, usersRequest]"

definition after401 :: "ApiService \<times> step list" where
  "after401 = settleAll (fst twoInFlight) (arrive unauthorized (snd twoInFlight))"

definition afterRefresh :: "ApiService \<times> step list" where
  "afterRefresh =
     settleAll (fst after401) (answerAll (snd after401) [refreshed ''t1'', refreshed ''t2''])"

definition registration :: "(string \<times> string) list" where
  "registration = [(''email'', ''a@b.com''), (''password'', ''Secret1!'')]"

definition emailTaken :: outcome where
  "emailTaken =
     Response 200 (envelope False None (Some ''Email already registered'')
                     (Some ''EMAIL_ALREADY_EXISTS''))"

section \<open>Properties of the access-control evaluator\<close>











text \<open>Two roles that both name inherited members are compared as strings.\<close>

lemma inherited_roles_compare_as_text:
  "ProtectedRoute (signedIn (exampleUser ''constructor'' [])) (Some ''toString'') None = RoleDeniedView
   \<and> ProtectedRoute (signedIn (exampleUser ''toString'' [])) (Some ''constructor'') None = ChildrenView
   \<and> ProtectedRoute (signedIn (exampleUser ''__proto__'' [])) (Some ''valueOf'') None = RoleDeniedView"
  by code_simp



section \<open>Properties of the session state store\<close>

text \<open>
  C8. From every state, assigning a user (or null) stores it, sets isAuthenticated to
  whether the user is non-null, isAdmin to whether the role is ADMIN or SUPER_ADMIN,
  isSuperAdmin to whether the role is SUPER_ADMIN, and clears loading and error. A user
  of role "user" is authenticated and no admin; a user of role "super_admin" is admin
  and super admin.
\<close>

theorem setUser_recomputes_flags:
  "user (authReducer s (SET_USER u)) = u
   \<and> (isAuthenticated (authReducer s (SET_USER u)) \<longleftrightarrow> u \<noteq> None)
   \<and> (isAdmin (authReducer s (SET_USER u))
        \<longleftrightarrow> (\<exists>x. u = Some x \<and> (role x = ADMIN \<or> role x = SUPER_ADMIN)))
   \<and> (isSuperAdmin (authReducer s (SET_USER u)) \<longleftrightarrow> (\<exists>x. u = Some x \<and> role x = SUPER_ADMIN))
   \<and> \<not> loading (authReducer s (SET_USER u))
   \<and> error (authReducer s (SET_USER u)) = None
   \<and> (role x = ''user'' \<longrightarrow>
        isAuthenticated (foldl authReducer s (loginDispatches x t r))
        \<and> \<not> isAdmin (foldl authReducer s (loginDispatches x t r))
        \<and> \<not> isSuperAdmin (foldl authReducer s (loginDispatches x t r)))
   \<and> (role x = ''super_admin'' \<longrightarrow>
        isAuthenticated (foldl authReducer s (loginDispatches x t r))
        \<and> isAdmin (foldl authReducer s (loginDispatches x t r))
        \<and> isSuperAdmin (foldl authReducer s (loginDispatches x t r)))"
  by (cases u) (auto simp: UserRole_defs loginDispatches_def)

theorem setUser_recomputes_flags_witness:
  "isAuthenticated (foldl authReducer initialState (loginDispatches (exampleUser ''user'' []) ''t1'' ''r1''))
   \<and> \<not> isAdmin (foldl authReducer initialState (loginDispatches (exampleUser ''user'' []) ''t1'' ''r1''))
   \<and> isAdmin (foldl authReducer initialState
                (loginDispatches (exampleUser ''super_admin'' []) ''t1'' ''r1''))
   \<and> isSuperAdmin (foldl authReducer initialState
                (loginDispatches (exampleUser ''super_admin'' []) ''t1'' ''r1''))
   \<and> \<not> isAuthenticated (authReducer (signedIn (exampleUser ''admin'' [])) (SET_USER None))
   \<and> \<not> isAdmin (authReducer (signedIn (exampleUser ''admin'' [])) (SET_USER None))"
  using setUser_recomputes_flags[of initialState "Some (exampleUser ''user'' [])"
          "exampleUser ''user'' []" "''t1''" "''r1''"]
        setUser_recomputes_flags[of initialState "Some (exampleUser ''super_admin'' [])"
          "exampleUser ''super_admin'' []" "''t1''" "''r1''"]
        setUser_recomputes_flags[of "signedIn (exampleUser ''admin'' [])" None
          "exampleUser ''user'' []" "''t1''" "''r1''"]
  by (simp add: exampleUser_def)

lemma flags_step:
  assumes "isAuthenticated s \<longleftrightarrow> user s \<noteq> None"
    and "isAdmin s \<longrightarrow> isAuthenticated s" and "isSuperAdmin s \<longrightarrow> isAdmin s"
  shows "(isAuthenticated (authReducer s a) \<longleftrightarrow> user (authReducer s a) \<noteq> None)
       \<and> (isAdmin (authReducer s a) \<longrightarrow> isAuthenticated (authReducer s a))
       \<and> (isSuperAdmin (authReducer s a) \<longrightarrow> isAdmin (authReducer s a))"
  using assms by (cases a) (auto simp: initialState_def split: option.splits)

lemma flags_foldl:
  assumes "isAuthenticated s \<longleftrightarrow> user s \<noteq> None"
    and "isAdmin s \<longrightarrow> isAuthenticated s" and "isSuperAdmin s \<longrightarrow> isAdmin s"
  shows "(isAuthenticated (foldl authReducer s as) \<longleftrightarrow> user (foldl authReducer s as) \<noteq> None)
       \<and> (isAdmin (foldl authReducer s as) \<longrightarrow> isAuthenticated (foldl authReducer s as))
       \<and> (isSuperAdmin (foldl authReducer s as) \<longrightarrow> isAdmin (foldl authReducer s as))"
  using assms
proof (induction as arbitrary: s)
  case Nil
  then show ?case by simp
next
  case (Cons a as)
  have st: "(isAuthenticated (authReducer s a) \<longleftrightarrow> user (authReducer s a) \<noteq> None)
       \<and> (isAdmin (authReducer s a) \<longrightarrow> isAuthenticated (authReducer s a))
       \<and> (isSuperAdmin (authReducer s a) \<longrightarrow> isAdmin (authReducer s a))"
    using flags_step[OF Cons.prems] .
  show ?case
    unfolding foldl_Cons
  proof (rule Cons.IH)
    show "isAuthenticated (authReducer s a) \<longleftrightarrow> user (authReducer s a) \<noteq> None"
      using st by blast
    show "isAdmin (authReducer s a) \<longrightarrow> isAuthenticated (authReducer s a)"
      using st by blast
    show "isSuperAdmin (authReducer s a) \<longrightarrow> isAdmin (authReducer s a)"
      using st by blast
  qed
qed

text \<open>
  C10. In the state reached from the initial state by any sequence of reducer actions,
  isAuthenticated holds exactly when a user is present, isAdmin implies isAuthenticated,
  and isSuperAdmin implies isAdmin.
\<close>

theorem reachable_flags_consistent:
  "(isAuthenticated (dispatchAll actions) \<longleftrightarrow> user (dispatchAll actions) \<noteq> None)
   \<and> (isAdmin (dispatchAll actions) \<longrightarrow> isAuthenticated (dispatchAll actions))
   \<and> (isSuperAdmin (dispatchAll actions) \<longrightarrow> isAdmin (dispatchAll actions))"
  unfolding dispatchAll_def
  by (rule flags_foldl) (simp_all add: initialState_def)

theorem reachable_flags_consistent_witness:
  "isAdmin (dispatchAll [SET_LOADING True, SET_USER (Some (exampleUser ''admin'' [])),
                         SET_TOKEN (Some ''t1''), SET_ERROR (Some ''e'')])
   \<and> isAuthenticated (dispatchAll [SET_LOADING True, SET_USER (Some (exampleUser ''admin'' [])),
                         SET_TOKEN (Some ''t1''), SET_ERROR (Some ''e'')])
   \<and> user (dispatchAll [SET_LOADING True, SET_USER (Some (exampleUser ''admin'' [])),
                         SET_TOKEN (Some ''t1''), SET_ERROR (Some ''e'')]) \<noteq> None
   \<and> \<not> isAuthenticated (dispatchAll [SET_USER (Some (exampleUser ''admin'' [])), LOGOUT])
   \<and> user (dispatchAll [SET_USER (Some (exampleUser ''admin'' [])), LOGOUT]) = None"
  using reachable_flags_consistent[of "[SET_LOADING True,
          SET_USER (Some (exampleUser ''admin'' [])), SET_TOKEN (Some ''t1''),
          SET_ERROR (Some ''e'')]"]
        reachable_flags_consistent[of "[SET_USER (Some (exampleUser ''admin'' [])), LOGOUT]"]
  by (simp add: dispatchAll_def initialState_def exampleUser_def UserRole_defs)

section \<open>Properties of the transport client\<close>

subsection \<open>Single handlers\<close>

lemma send_eq:
  "send svc req = (svc\<lparr>sent := sent svc @ [requestInterceptor svc req]\<rparr>, requestInterceptor svc req)"
  by (simp add: send_def Let_def)

lemma requestInterceptor_keeps [simp]:
  "retry (requestInterceptor svc req) = retry req"
  "url (requestInterceptor svc req) = url req"
  "body (requestInterceptor svc req) = body req"
  by (simp_all add: requestInterceptor_def)

lemma refreshRequest_fields [simp]:
  "retry (refreshRequest svc) = False"
  "url (refreshRequest svc) = ''/api/auth/refresh''"
  by (simp_all add: refreshRequest_def newRequest_def)

lemma responseRejected_401:
  assumes "statusOf failure = Some 401" and "truthy (this_refreshToken svc)" and "\<not> retry cfg"
  shows "responseRejected svc cfg w failure =
           (svc\<lparr>sent := sent svc @ [requestInterceptor svc (refreshRequest svc)]\<rparr>,
            Pending (requestInterceptor svc (refreshRequest svc))
              (Refreshing (cfg\<lparr>retry := True\<rparr>) failure w))"
  using assms by (simp add: responseRejected_def send_eq Let_def)

lemma settle_401:
  assumes "statusOf out = Some 401" and "truthy (this_refreshToken svc)" and "\<not> retry cfg"
  shows "settle svc cfg w out =
           (svc\<lparr>sent := sent svc @ [requestInterceptor svc (refreshRequest svc)]\<rparr>,
            Pending (requestInterceptor svc (refreshRequest svc))
              (Refreshing (cfg\<lparr>retry := True\<rparr>) out w))"
proof (cases out)
  case (Response status d)
  with assms(1) have "status = 401" by simp
  then have "\<not> validateStatus status" by (simp add: validateStatus_def)
  then show ?thesis
    using Response responseRejected_401[OF assms] by (simp add: settle_def)
qed (use assms in simp_all)

lemma sent_update_irrelevant [simp]:
  "requestInterceptor (svc\<lparr>sent := x\<rparr>) = requestInterceptor svc"
  "refreshRequest (svc\<lparr>sent := x\<rparr>) = refreshRequest svc"
  by (simp_all add: requestInterceptor_def refreshRequest_def bearer_def fun_eq_iff)


lemma settle_fulfilled:
  "validateStatus status \<Longrightarrow> settle svc cfg Caller (Response status d) = (svc, Settled (Inr d))"
  by (simp add: settle_def)

lemma settle_rejected_plain:
  assumes "case statusOf out of None \<Rightarrow> True | Some s \<Rightarrow> \<not> validateStatus s \<and> s \<noteq> 401"
  shows "settle svc cfg Caller out = (svc, Settled (Inl (Normalized (handleError out))))"
  using assms by (cases out) (simp_all add: settle_def responseRejected_def)

lemma api_fulfilled:
  assumes "net (sent svc @ [requestInterceptor svc req]) = Response status d"
    and "validateStatus status"
  shows "api (Suc n) net svc req =
           Some (Inr d, svc\<lparr>sent := sent svc @ [requestInterceptor svc req]\<rparr>)"
  using assms by (simp add: api_def send_eq settle_fulfilled)

lemma api_rejected_plain:
  assumes "net (sent svc @ [requestInterceptor svc req]) = out"
    and "case statusOf out of None \<Rightarrow> True | Some s \<Rightarrow> \<not> validateStatus s \<and> s \<noteq> 401"
  shows "api (Suc n) net svc req =
           Some (Inl (Normalized (handleError out)),
                 svc\<lparr>sent := sent svc @ [requestInterceptor svc req]\<rparr>)"
  using assms by (simp add: api_def send_eq settle_rejected_plain)



text \<open>
  The scenario of one 401 followed by a successful refresh: one refresh call, the tokens
  updated, and the original request re-issued once with the new token.
\<close>

lemma single_401_refresh_retry:
  "map_option fst
     (api 3 (scripted [unauthorized, refreshed ''t1'', Response 200 (envelope True None None None)])
        exampleService profileRequest)
     = Some (Inr (envelope True None None None))
   \<and> map_option (refreshCalls \<circ> snd)
        (api 3 (scripted [unauthorized, refreshed ''t1'', Response 200 (envelope True None None None)])
           exampleService profileRequest) = Some 1
   \<and> map_option (this_token \<circ> snd)
        (api 3 (scripted [unauthorized, refreshed ''t1'', Response 200 (envelope True None None None)])
           exampleService profileRequest) = Some (Some ''t1'')
   \<and> map_option (map url \<circ> sent \<circ> snd)
        (api 3 (scripted [unauthorized, refreshed ''t1'', Response 200 (envelope True None None None)])
           exampleService profileRequest)
       = Some [''/api/users/profile'', ''/api/auth/refresh'', ''/api/users/profile'']
   \<and> map_option (map Authorization \<circ> sent \<circ> snd)
        (api 3 (scripted [unauthorized, refreshed ''t1'', Response 200 (envelope True None None None)])
           exampleService profileRequest)
       = Some [Some ''Bearer t0'', Some ''Bearer t0'', Some ''Bearer t1'']
   \<and> map_option (map retry \<circ> sent \<circ> snd)
        (api 3 (scripted [unauthorized, refreshed ''t1'', Response 200 (envelope True None None None)])
           exampleService profileRequest)
       = Some [False, False, True]"
  by code_simp

subsection \<open>Concurrent 401 answers\<close>





text \<open>
  The same run continued: each refresh call is answered with a new token, and each
  handler re-issues its own request once, with the token of its own refresh call.
\<close>

lemma two_unauthorized_requests_full_run:
  "map url (sent (fst afterRefresh))
     = [''/api/users/profile'', ''/api/users/stats'', ''/api/auth/refresh'', ''/api/auth/refresh'',
        ''/api/users/profile'', ''/api/users/stats'']
   \<and> map Authorization (sent (fst afterRefresh))
       = [Some ''Bearer t0'', Some ''Bearer t0'', Some ''Bearer t0'', Some ''Bearer t0'',
          Some ''Bearer t1'', Some ''Bearer t2'']
   \<and> map retry (sent (fst afterRefresh)) = [False, False, False, False, True, True]
   \<and> this_token (fst afterRefresh) = Some ''t2''
   \<and> refreshCalls (fst afterRefresh) = 2"
  by code_simp

subsection \<open>A failed refresh after a 401\<close>

text \<open>
  C4. The code at two failing inputs, with a callback registered. A request is answered
  with 401 and the refresh call with status 200 and success = false: the original error
  is surfaced and the credentials are cleared, but onTokenExpired is not called. A
  request is answered with 401, the refresh call with 401 and the refresh call that this
  one starts with 500: onTokenExpired is called twice.
\<close>

theorem failed_refresh_onTokenExpired_not_once:
  "map_option fst (api 2 (scripted [unauthorized, refusedByFlag]) exampleService profileRequest)
     = Some (Inl (Normalized (handleError unauthorized)))
   \<and> map_option (this_token \<circ> snd)
        (api 2 (scripted [unauthorized, refusedByFlag]) exampleService profileRequest) = Some None
   \<and> map_option (this_refreshToken \<circ> snd)
        (api 2 (scripted [unauthorized, refusedByFlag]) exampleService profileRequest) = Some None
   \<and> map_option (onTokenExpired \<circ> config \<circ> snd)
        (api 2 (scripted [unauthorized, refusedByFlag]) exampleService profileRequest) = Some True
   \<and> map_option (tokenExpiredCalls \<circ> snd)
        (api 2 (scripted [unauthorized, refusedByFlag]) exampleService profileRequest) = Some 0
   \<and> map_option fst
        (api 3 (scripted [unauthorized, unauthorized, serverError]) exampleService profileRequest)
       = Some (Inl (Normalized (handleError unauthorized)))
   \<and> map_option (tokenExpiredCalls \<circ> snd)
        (api 3 (scripted [unauthorized, unauthorized, serverError]) exampleService profileRequest)
       = Some 2"
  by code_simp

text \<open>
  What the handler does when the refresh call is rejected outright (an error status other
  than 401, or no response): the tokens are cleared, the callback is called once, and the
  original error is surfaced.
\<close>

lemma failed_refresh_by_status:
  "map_option fst (api 2 (scripted [unauthorized, forbidden]) exampleService profileRequest)
     = Some (Inl (Normalized (handleError unauthorized)))
   \<and> map_option (this_token \<circ> snd)
        (api 2 (scripted [unauthorized, forbidden]) exampleService profileRequest) = Some None
   \<and> map_option (this_refreshToken \<circ> snd)
        (api 2 (scripted [unauthorized, forbidden]) exampleService profileRequest) = Some None
   \<and> map_option (tokenExpiredCalls \<circ> snd)
        (api 2 (scripted [unauthorized, forbidden]) exampleService profileRequest) = Some 1"
  by code_simp

subsection \<open>refreshAccessToken\<close>

text \<open>
  C5 (as amended). Without a stored refresh token refreshAccessToken throws at once and
  sends nothing. With one, when the refresh call is answered with a success status and
  success = false, it clears the access and the refresh token (members and storage) and
  returns false; when the call is answered with an error status other than 401, or not
  answered, it throws the normalized error and leaves the credentials as they are.
\<close>

theorem refreshAccessToken_outcomes:
  "(\<not> truthy (this_refreshToken svc) \<longrightarrow>
      refreshAccessToken n net svc = Some (Inl (PlainError ''No refresh token available''), svc))
   \<and> (truthy (this_refreshToken svc)
        \<and> net (sent svc @ [requestInterceptor svc (refreshRequest svc)]) = Response status d
        \<and> validateStatus status \<and> \<not> success d \<longrightarrow>
      (\<exists>svc'. refreshAccessToken (Suc n) net svc = Some (Inr False, svc')
         \<and> this_token svc' = None \<and> this_refreshToken svc' = None
         \<and> localStorage svc' (tokenKey svc) = None
         \<and> localStorage svc' (refreshTokenKey svc) = None
         \<and> sent svc' = sent svc @ [requestInterceptor svc (refreshRequest svc)]))
   \<and> (truthy (this_refreshToken svc)
        \<and> net (sent svc @ [requestInterceptor svc (refreshRequest svc)]) = out
        \<and> (case statusOf out of None \<Rightarrow> True | Some s \<Rightarrow> \<not> validateStatus s \<and> s \<noteq> 401) \<longrightarrow>
      refreshAccessToken (Suc n) net svc =
        Some (Inl (Normalized (handleError out)),
              svc\<lparr>sent := sent svc @ [requestInterceptor svc (refreshRequest svc)]\<rparr>))"
proof (intro conjI impI)
  assume "\<not> truthy (this_refreshToken svc)"
  then show "refreshAccessToken n net svc = Some (Inl (PlainError ''No refresh token available''), svc)"
    by (simp add: refreshAccessToken_def)
next
  assume a: "truthy (this_refreshToken svc)
        \<and> net (sent svc @ [requestInterceptor svc (refreshRequest svc)]) = Response status d
        \<and> validateStatus status \<and> \<not> success d"
  then have "api (Suc n) net svc (refreshRequest svc) =
      Some (Inr d, svc\<lparr>sent := sent svc @ [requestInterceptor svc (refreshRequest svc)]\<rparr>)"
    using api_fulfilled by blast
  with a show "\<exists>svc'. refreshAccessToken (Suc n) net svc = Some (Inr False, svc')
         \<and> this_token svc' = None \<and> this_refreshToken svc' = None
         \<and> localStorage svc' (tokenKey svc) = None
         \<and> localStorage svc' (refreshTokenKey svc) = None
         \<and> sent svc' = sent svc @ [requestInterceptor svc (refreshRequest svc)]"
    by (simp add: refreshAccessToken_def refreshFulfilled_def clearTokensFromStorage_def
        tokenKey_def refreshTokenKey_def)
next
  assume a: "truthy (this_refreshToken svc)
        \<and> net (sent svc @ [requestInterceptor svc (refreshRequest svc)]) = out
        \<and> (case statusOf out of None \<Rightarrow> True | Some s \<Rightarrow> \<not> validateStatus s \<and> s \<noteq> 401)"
  then have "api (Suc n) net svc (refreshRequest svc) =
      Some (Inl (Normalized (handleError out)),
            svc\<lparr>sent := sent svc @ [requestInterceptor svc (refreshRequest svc)]\<rparr>)"
    using api_rejected_plain by blast
  with a show "refreshAccessToken (Suc n) net svc =
        Some (Inl (Normalized (handleError out)),
              svc\<lparr>sent := sent svc @ [requestInterceptor svc (refreshRequest svc)]\<rparr>)"
    by (simp add: refreshAccessToken_def)
qed

lemma ex_truthy: "truthy (this_refreshToken exampleService)" by code_simp
lemma so_truthy: "\<not> truthy (this_refreshToken signedOutService)" by code_simp

theorem refreshAccessToken_outcomes_witness:
  "refreshAccessToken 0 (scripted []) signedOutService
      = Some (Inl (PlainError ''No refresh token available''), signedOutService)
   \<and> sent signedOutService = []
   \<and> (\<exists>svc'. refreshAccessToken 1 (scripted [Response 200 (envelope False None None None)]) exampleService
                = Some (Inr False, svc')
         \<and> this_token svc' = None \<and> this_refreshToken svc' = None
         \<and> localStorage svc' ''spirit_ai_token'' = None
         \<and> localStorage svc' ''spirit_ai_refresh_token'' = None)
   \<and> (\<exists>svc'. refreshAccessToken 1 (scripted [forbidden]) exampleService
                = Some (Inl (Normalized (handleError forbidden)), svc')
         \<and> this_token svc' = Some ''t0'' \<and> this_refreshToken svc' = Some ''r0'')"
proof -
  have a: "refreshAccessToken 0 (scripted []) signedOutService
      = Some (Inl (PlainError ''No refresh token available''), signedOutService)"
    using refreshAccessToken_outcomes[of signedOutService 0 "scripted []"] so_truthy by blast
  have s: "sent exampleService = []" "sent signedOutService = []"
    by (simp_all add: exampleService_def signedOutService_def newApiService_def loadTokensFromStorage_def)
  have k: "tokenKey exampleService = ''spirit_ai_token''"
    "refreshTokenKey exampleService = ''spirit_ai_refresh_token''"
    by (simp_all add: tokenKey_def refreshTokenKey_def exampleService_def newApiService_def
        loadTokensFromStorage_def exampleConfig_def orElse_def)
  have b: "\<exists>svc'. refreshAccessToken 1 (scripted [Response 200 (envelope False None None None)]) exampleService
                = Some (Inr False, svc')
         \<and> this_token svc' = None \<and> this_refreshToken svc' = None
         \<and> localStorage svc' ''spirit_ai_token'' = None
         \<and> localStorage svc' ''spirit_ai_refresh_token'' = None"
    using refreshAccessToken_outcomes[of exampleService 0
        "scripted [Response 200 (envelope False None None None)]" 200 "envelope False None None None"]
      ex_truthy s k
    by (simp add: scripted_def validateStatus_def envelope_def) blast
  have t: "this_token exampleService = Some ''t0''" "this_refreshToken exampleService = Some ''r0''"
    by (simp_all add: exampleService_def newApiService_def loadTokensFromStorage_def tokenKey_def
        refreshTokenKey_def exampleConfig_def orElse_def)
  have c: "\<exists>svc'. refreshAccessToken 1 (scripted [forbidden]) exampleService
                = Some (Inl (Normalized (handleError forbidden)), svc')
         \<and> this_token svc' = Some ''t0'' \<and> this_refreshToken svc' = Some ''r0''"
    using refreshAccessToken_outcomes[of exampleService 0 "scripted [forbidden]" _ _ forbidden]
      ex_truthy s t
    by (simp add: scripted_def validateStatus_def forbidden_def)
  show ?thesis using a b c s by simp
qed

text \<open>
  C5, as stated, fails: the server rejects the refresh with status 403, and
  refreshAccessToken throws, with the credentials still stored.
\<close>

theorem refresh_rejected_by_status_counterexample:
  "map_option fst (refreshAccessToken 1 (scripted [forbidden]) exampleService)
     = Some (Inl (Normalized \<lparr>code = Own TOKEN_EXPIRED, message = ''Refresh token revoked'',
                               details = None\<rparr>))
   \<and> map_option (this_token \<circ> snd) (refreshAccessToken 1 (scripted [forbidden]) exampleService)
       = Some (Some ''t0'')
   \<and> map_option (this_refreshToken \<circ> snd)
        (refreshAccessToken 1 (scripted [forbidden]) exampleService) = Some (Some ''r0'')
   \<and> map_option (localStorage \<circ> snd) (refreshAccessToken 1 (scripted [forbidden]) exampleService)
       = Some (localStorage exampleService)
   \<and> localStorage exampleService ''spirit_ai_token'' = Some ''t0''
   \<and> localStorage exampleService ''spirit_ai_refresh_token'' = Some ''r0''"
  by (simp add: refreshAccessToken_def api_def send_def requestInterceptor_def refreshRequest_def
      newRequest_def bearer_def truthy_def scripted_def forbidden_def envelope_def settle_def
      validateStatus_def responseRejected_def exampleService_def newApiService_def
      loadTokensFromStorage_def tokenKey_def refreshTokenKey_def exampleConfig_def orElse_def
      mapErrorCode_def getProperty_def orDefault_def codeMap_def Let_def)

subsection \<open>verifyToken\<close>

text \<open>
  C6. The code at the failing input: with a token stored and the verify call answered
  with status 200 and success = false, verifyToken returns null and the credentials stay
  stored, in the members and in the storage.
\<close>

theorem verifyToken_refused_keeps_credentials:
  "map_option fst (verifyToken 1 (scripted [refusedByFlag]) exampleService) = Some (Inr None)
   \<and> map_option (this_token \<circ> snd) (verifyToken 1 (scripted [refusedByFlag]) exampleService)
       = Some (Some ''t0'')
   \<and> map_option (this_refreshToken \<circ> snd)
        (verifyToken 1 (scripted [refusedByFlag]) exampleService) = Some (Some ''r0'')
   \<and> map_option (\<lambda>r. localStorage (snd r) ''spirit_ai_token'')
        (verifyToken 1 (scripted [refusedByFlag]) exampleService) = Some (Some ''t0'')
   \<and> map_option (\<lambda>r. localStorage (snd r) ''spirit_ai_refresh_token'')
        (verifyToken 1 (scripted [refusedByFlag]) exampleService) = Some (Some ''r0'')"
  by code_simp

text \<open>When verifyToken returns, it returns a user or null: it has no throwing path.\<close>

lemma verifyToken_returns:
  "verifyToken n net svc = Some (r, svc') \<Longrightarrow> \<exists>u. r = Inr u"
  by (auto simp: verifyToken_def split: if_splits option.splits sum.splits)

text \<open>A rejected verify call clears the credentials.\<close>

lemma verifyToken_rejected_clears:
  "map_option fst (verifyToken 1 (scripted [forbidden]) exampleService) = Some (Inr None)
   \<and> map_option (this_token \<circ> snd) (verifyToken 1 (scripted [forbidden]) exampleService)
       = Some None
   \<and> map_option (this_refreshToken \<circ> snd) (verifyToken 1 (scripted [forbidden]) exampleService)
       = Some None"
  by code_simp

subsection \<open>logout\<close>

lemma await_unauthorized_pending:
  assumes "\<And>log. statusOf (net log) = Some 401"
  shows "truthy (this_refreshToken svc) \<Longrightarrow> \<not> retry cfg
           \<Longrightarrow> await n net (svc, Pending cfg w) = None"
proof (induction n arbitrary: svc cfg w)
  case 0
  then show ?case by simp
next
  case (Suc n)
  have "await (Suc n) net (svc, Pending cfg w) = await n net (settle svc cfg w (net (sent svc)))"
    by simp
  also have "settle svc cfg w (net (sent svc)) =
      (svc\<lparr>sent := sent svc @ [requestInterceptor svc (refreshRequest svc)]\<rparr>,
       Pending (requestInterceptor svc (refreshRequest svc))
         (Refreshing (cfg\<lparr>retry := True\<rparr>) (net (sent svc)) w))"
    using settle_401[OF assms Suc.prems] .
  also have "await n net \<dots> = None"
    by (rule Suc.IH) (use Suc.prems in simp_all)
  finally show ?case .
qed

lemma api_unauthorized_pending:
  assumes "\<And>log. statusOf (net log) = Some 401" and "truthy (this_refreshToken svc)"
    and "\<not> retry req"
  shows "api n net svc req = None"
  using await_unauthorized_pending[OF assms(1), where svc = "fst (send svc req)"
      and cfg = "snd (send svc req)" and n = n and w = Caller]
    assms(2,3)
  by (simp add: api_def send_eq)

lemma logout_clears_when_settled:
  assumes "api n net svc (newRequest ''POST'' ''/api/auth/logout'' []) = Some (r, svc1)"
  shows "\<exists>svc2. logout n net svc = Some (Inr (), svc2)
           \<and> this_token svc2 = None \<and> this_refreshToken svc2 = None
           \<and> localStorage svc2 (tokenKey svc2) = None
           \<and> localStorage svc2 (refreshTokenKey svc2) = None"
  using assms
  by (cases r) (simp_all add: logout_def clearTokensFromStorage_def tokenKey_def refreshTokenKey_def)

lemma providerLogout_resets_when_settled:
  assumes "api n net svc (newRequest ''POST'' ''/api/auth/logout'' []) = Some (r, svc1)"
  shows "providerLogout n net (svc, s) =
           Some (Inr (), clearTokensFromStorage svc1, initialState\<lparr>loading := False\<rparr>)"
  using assms by (cases r) (simp_all add: providerLogout_def logout_def)

text \<open>A logout call that fails with a server error or without a response: logout clears.\<close>

lemma logout_after_failed_call:
  "map_option fst (logout 1 (scripted [serverError]) exampleService) = Some (Inr ())
   \<and> map_option (this_token \<circ> snd) (logout 1 (scripted [serverError]) exampleService) = Some None
   \<and> map_option (this_refreshToken \<circ> snd) (logout 1 (scripted [serverError]) exampleService)
       = Some None
   \<and> map_option fst (logout 1 (scripted [NoResponse]) exampleService) = Some (Inr ())
   \<and> map_option (this_refreshToken \<circ> snd) (logout 1 (scripted [NoResponse]) exampleService)
       = Some None"
  by code_simp

text \<open>
  C7. The code at the failing input: a refresh token is stored and the server answers
  every request, the refresh calls included, with 401. The refresh call passes through
  the same interceptor, so each 401 starts another refresh call; after any number of
  answers logout is still pending, the credentials are not cleared and the provider has
  not dispatched LOGOUT.
\<close>

theorem logout_never_settles_when_refresh_is_unauthorized:
  "\<forall>n. logout n (\<lambda>log. unauthorized) exampleService = None
       \<and> providerLogout n (\<lambda>log. unauthorized) (exampleService, signedIn (exampleUser USER [])) = None"
proof -
  have t: "truthy (this_refreshToken exampleService)"
    by code_simp
  have "api n (\<lambda>log. unauthorized) exampleService (newRequest ''POST'' ''/api/auth/logout'' []) = None" for n
    by (rule api_unauthorized_pending) (simp_all add: unauthorized_def t newRequest_def)
  then show ?thesis
    by (simp add: logout_def providerLogout_def)
qed

subsection \<open>Shape of failures\<close>

lemma reject_settles:
  "\<exists>svc1 e. reject svc w err = (svc1, Settled (Inl e))
      \<and> (e = err \<or> (\<exists>f \<in> set (failuresOf w). e = Normalized (handleError f)))"
proof (induction w arbitrary: svc err)
  case Caller
  then show ?case by simp
next
  case (Refreshing q f v)
  obtain svc1 e where r: "reject (notifyTokenExpired (clearTokensFromStorage svc)) v
      (Normalized (handleError f)) = (svc1, Settled (Inl e))"
    and c: "e = Normalized (handleError f)
             \<or> (\<exists>g \<in> set (failuresOf v). e = Normalized (handleError g))"
    using Refreshing.IH by blast
  have "\<exists>g \<in> set (failuresOf (Refreshing q f v)). e = Normalized (handleError g)"
    using c by auto
  with r show ?case by simp
qed

lemma reject_answered:
  assumes "reject svc w (Normalized (handleError f)) = (svc1, st)"
    and "f \<in> range net" and "set (failuresOf w) \<subseteq> range net"
  shows "\<exists>e log. st = Settled (Inl e) \<and> e = Normalized (handleError (net log))"
proof -
  obtain svc2 e where r: "reject svc w (Normalized (handleError f)) = (svc2, Settled (Inl e))"
    and c: "e = Normalized (handleError f)
             \<or> (\<exists>g \<in> set (failuresOf w). e = Normalized (handleError g))"
    using reject_settles by blast
  from c obtain g where "g \<in> range net" "e = Normalized (handleError g)"
    using assms(2,3) by auto
  then show ?thesis using r assms(1) by auto
qed

lemma responseRejected_answered:
  assumes "responseRejected svc cfg w failure = (svc1, st)"
    and "failure \<in> range net" and "set (failuresOf w) \<subseteq> range net"
  shows "case st of
           Settled r \<Rightarrow> (\<forall>e. r = Inl e \<longrightarrow> (\<exists>log. e = Normalized (handleError (net log))))
         | Pending cfg' w' \<Rightarrow> set (failuresOf w') \<subseteq> range net"
proof (cases "statusOf failure = Some 401 \<and> truthy (this_refreshToken svc) \<and> \<not> retry cfg")
  case True
  then have "st = Pending (requestInterceptor svc (refreshRequest svc))
                    (Refreshing (cfg\<lparr>retry := True\<rparr>) failure w)"
    using assms(1) by (simp add: responseRejected_def send_eq Let_def)
  then show ?thesis using assms(2,3) by simp
next
  case False
  then have "reject svc w (Normalized (handleError failure)) = (svc1, st)"
    using assms(1) by (auto simp: responseRejected_def)
  from reject_answered[OF this assms(2,3)] show ?thesis by auto
qed

lemma fulfil_answered:
  assumes "fulfil svc w d = (svc1, st)" and "set (failuresOf w) \<subseteq> range net"
  shows "case st of
           Settled r \<Rightarrow> (\<forall>e. r = Inl e \<longrightarrow> (\<exists>log. e = Normalized (handleError (net log))))
         | Pending cfg' w' \<Rightarrow> set (failuresOf w') \<subseteq> range net"
proof (cases w)
  case Caller
  then show ?thesis using assms by auto
next
  case (Refreshing q f v)
  then have fv: "f \<in> range net" "set (failuresOf v) \<subseteq> range net"
    using assms(2) by auto
  obtain r svc2 where rf: "refreshFulfilled svc d = (r, svc2)"
    by (cases "refreshFulfilled svc d")
  show ?thesis
  proof (cases r)
    case (Inl x)
    then have "reject (notifyTokenExpired (clearTokensFromStorage svc2)) v (Normalized (handleError f))
        = (svc1, st)"
      using assms(1) Refreshing rf by simp
    from reject_answered[OF this fv] show ?thesis by auto
  next
    case (Inr b)
    show ?thesis
    proof (cases b)
      case True
      then have "st = Pending (requestInterceptor svc2 (q\<lparr>Authorization := Some (bearer svc2)\<rparr>)) v"
        using assms(1) Refreshing rf Inr by (simp add: send_eq)
      then show ?thesis using fv by simp
    next
      case False
      then have "reject svc2 v (Normalized (handleError f)) = (svc1, st)"
        using assms(1) Refreshing rf Inr by simp
      from reject_answered[OF this fv] show ?thesis by auto
    qed
  qed
qed

lemma settle_answered:
  assumes "settle svc cfg w out = (svc1, st)"
    and "out \<in> range net" and "set (failuresOf w) \<subseteq> range net"
  shows "case st of
           Settled r \<Rightarrow> (\<forall>e. r = Inl e \<longrightarrow> (\<exists>log. e = Normalized (handleError (net log))))
         | Pending cfg' w' \<Rightarrow> set (failuresOf w') \<subseteq> range net"
proof (cases "\<exists>status d. out = Response status d \<and> validateStatus status")
  case True
  then obtain status d where "out = Response status d" "validateStatus status" by blast
  then have "fulfil svc w d = (svc1, st)" using assms(1) by (simp add: settle_def)
  from fulfil_answered[OF this assms(3)] show ?thesis .
next
  case False
  then have "responseRejected svc cfg w out = (svc1, st)"
    using assms(1) by (cases out) (auto simp: settle_def)
  from responseRejected_answered[OF this assms(2,3)] show ?thesis .
qed

lemma await_answered:
  "set (failuresOf w) \<subseteq> range net \<Longrightarrow> await n net (svc, Pending cfg w) = Some (Inl e, svc1)
     \<Longrightarrow> \<exists>log. e = Normalized (handleError (net log))"
proof (induction n arbitrary: svc cfg w)
  case 0
  then show ?case by simp
next
  case (Suc n)
  obtain svc2 st where s: "settle svc cfg w (net (sent svc)) = (svc2, st)"
    by (cases "settle svc cfg w (net (sent svc))")
  have a: "case st of
           Settled r \<Rightarrow> (\<forall>e. r = Inl e \<longrightarrow> (\<exists>log. e = Normalized (handleError (net log))))
         | Pending cfg' w' \<Rightarrow> set (failuresOf w') \<subseteq> range net"
    by (rule settle_answered[OF s _ Suc.prems(1)]) simp
  show ?case
  proof (cases st)
    case (Settled r)
    then have "r = Inl e" using Suc.prems(2) s by simp
    then show ?thesis using a Settled by simp
  next
    case (Pending cfg' w')
    then have "set (failuresOf w') \<subseteq> range net" using a by simp
    moreover have "await n net (svc2, Pending cfg' w') = Some (Inl e, svc1)"
      using Suc.prems(2) s Pending by simp
    ultimately show ?thesis by (rule Suc.IH)
  qed
qed

lemma api_answered:
  "api n net svc req = Some (Inl e, svc1) \<Longrightarrow> \<exists>log. e = Normalized (handleError (net log))"
  using await_answered[of Caller net n] by (auto simp: api_def send_eq)

lemma mapErrorCode_cases:
  "c \<notin> set objectPrototypeMembers \<Longrightarrow>
     mapErrorCode c =
       Own (if c = ''INVALID_CREDENTIALS'' then INVALID_CREDENTIALS
            else if c = ''TOKEN_EXPIRED'' then TOKEN_EXPIRED
            else if c = ''INSUFFICIENT_PERMISSIONS'' then INSUFFICIENT_PERMISSIONS
            else if c = ''VALIDATION_ERROR'' then VALIDATION_ERROR
            else if c = ''USER_NOT_FOUND'' then USER_NOT_FOUND
            else if c = ''EMAIL_ALREADY_EXISTS'' then EMAIL_ALREADY_EXISTS
            else UNKNOWN_ERROR)"
  by (simp add: mapErrorCode_def getProperty_def orDefault_def codeMap_def)

lemma mapErrorCode_fallback: "mapErrorCode ''UNKNOWN_ERROR'' = Own UNKNOWN_ERROR"
  by (simp add: mapErrorCode_def getProperty_def orDefault_def codeMap_def
      objectPrototypeMembers_def)

lemma authenticate_rejected:
  "api n net svc (newRequest ''POST'' path payload) = Some (Inl err, svc1)
     \<Longrightarrow> authenticate path failed n net svc payload = Some (Inl err, svc1)"
  by (simp add: authenticate_def)

lemma authenticate_refused:
  "api n net svc (newRequest ''POST'' path payload) = Some (Inr d, svc1) \<Longrightarrow> \<not> success d
     \<Longrightarrow> authenticate path failed n net svc payload
           = Some (Inl (PlainError (orElse (resp_message d) failed)), svc1)"
  by (simp add: authenticate_def)

lemma authenticate_failure:
  assumes "authenticate path failed n net svc payload = Some (Inl e, svc1)"
  shows "(api n net svc (newRequest ''POST'' path payload) = Some (Inl e, svc1)
            \<and> (\<exists>log. e = Normalized (handleError (net log))))
       \<or> (\<exists>d. api n net svc (newRequest ''POST'' path payload) = Some (Inr d, svc1)
              \<and> \<not> success d \<and> e = PlainError (orElse (resp_message d) failed))
       \<or> (\<exists>d. api n net svc (newRequest ''POST'' path payload) = Some (Inr d, svc1)
              \<and> success d \<and> data d = None \<and> e = TypeError)"
proof (cases "api n net svc (newRequest ''POST'' path payload)")
  case None
  then show ?thesis using assms by (simp add: authenticate_def)
next
  case (Some a)
  obtain r svc2 where a: "a = (r, svc2)" by (cases a)
  show ?thesis
  proof (cases r)
    case (Inl x)
    then have "x = e" "svc2 = svc1" using assms Some a by (simp_all add: authenticate_def)
    then show ?thesis using api_answered Some a Inl by blast
  next
    case (Inr d)
    then show ?thesis using assms Some a
      by (auto simp: authenticate_def split: if_splits option.splits)
  qed
qed

text \<open>
  C9 (as amended). Every failure with which a transport call rejects is the object that
  handleError builds from an answer of the network; a call answered with an error status
  other than 401, or not answered, rejects with the object built from that answer. Its
  code is NETWORK_ERROR when no response was received, UNKNOWN_ERROR when the request was
  not sent or the response carries no error code, and for a server code that is not the
  name of a member of Object.prototype the member of the taxonomy named by the code when
  it is one of the six mapped names and UNKNOWN_ERROR otherwise. register and login pass a
  rejected call's error on unchanged; when the call was fulfilled and the envelope says
  success = false they fail with a plain Error that carries the envelope's message (or
  the operation's default message) and no code; a failure of register or login has one
  of these two causes or is the TypeError of success = true without data.
\<close>

theorem failures_normalized_or_plain:
  "(api n net svc req = Some (Inl e, svc') \<longrightarrow> (\<exists>log. e = Normalized (handleError (net log))))
   \<and> (net (sent svc @ [requestInterceptor svc req]) = out
        \<and> (case statusOf out of None \<Rightarrow> True | Some s \<Rightarrow> \<not> validateStatus s \<and> s \<noteq> 401) \<longrightarrow>
        api (Suc n) net svc req =
          Some (Inl (Normalized (handleError out)),
                svc\<lparr>sent := sent svc @ [requestInterceptor svc req]\<rparr>))
   \<and> (api n net svc (newRequest ''POST'' ''/api/auth/register'' userData) = Some (Inl e, svc') \<longrightarrow>
        register n net svc userData = Some (Inl e, svc'))
   \<and> (api n net svc (newRequest ''POST'' ''/api/auth/register'' userData) = Some (Inr d, svc')
        \<and> \<not> success d \<longrightarrow>
        register n net svc userData
          = Some (Inl (PlainError (orElse (resp_message d) ''Registration failed'')), svc'))
   \<and> (register n net svc userData = Some (Inl e, svc') \<longrightarrow>
        (api n net svc (newRequest ''POST'' ''/api/auth/register'' userData) = Some (Inl e, svc')
           \<and> (\<exists>log. e = Normalized (handleError (net log))))
        \<or> (\<exists>d. api n net svc (newRequest ''POST'' ''/api/auth/register'' userData) = Some (Inr d, svc')
               \<and> \<not> success d \<and> e = PlainError (orElse (resp_message d) ''Registration failed''))
        \<or> (\<exists>d. api n net svc (newRequest ''POST'' ''/api/auth/register'' userData) = Some (Inr d, svc')
               \<and> success d \<and> data d = None \<and> e = TypeError))
   \<and> (api n net svc (newRequest ''POST'' ''/api/auth/login'' [(''email'', em), (''password'', pw)])
          = Some (Inl e, svc') \<longrightarrow>
        login n net svc em pw = Some (Inl e, svc'))
   \<and> (api n net svc (newRequest ''POST'' ''/api/auth/login'' [(''email'', em), (''password'', pw)])
          = Some (Inr d, svc')
        \<and> \<not> success d \<longrightarrow>
        login n net svc em pw = Some (Inl (PlainError (orElse (resp_message d) ''Login failed'')), svc'))
   \<and> (login n net svc em pw = Some (Inl e, svc') \<longrightarrow>
        (api n net svc (newRequest ''POST'' ''/api/auth/login'' [(''email'', em), (''password'', pw)])
             = Some (Inl e, svc')
           \<and> (\<exists>log. e = Normalized (handleError (net log))))
        \<or> (\<exists>d. api n net svc (newRequest ''POST'' ''/api/auth/login'' [(''email'', em), (''password'', pw)])
                 = Some (Inr d, svc')
               \<and> \<not> success d \<and> e = PlainError (orElse (resp_message d) ''Login failed''))
        \<or> (\<exists>d. api n net svc (newRequest ''POST'' ''/api/auth/login'' [(''email'', em), (''password'', pw)])
                 = Some (Inr d, svc')
               \<and> success d \<and> data d = None \<and> e = TypeError))
   \<and> code (handleError NoResponse) = Own NETWORK_ERROR
   \<and> code (handleError (NotSent m)) = Own UNKNOWN_ERROR
   \<and> (resp_error answer = None \<longrightarrow> code (handleError (Response status answer)) = Own UNKNOWN_ERROR)
   \<and> (resp_error answer = Some b \<and> err_code b \<notin> set objectPrototypeMembers \<longrightarrow>
        code (handleError (Response status answer)) =
          Own (if err_code b = ''INVALID_CREDENTIALS'' then INVALID_CREDENTIALS
               else if err_code b = ''TOKEN_EXPIRED'' then TOKEN_EXPIRED
               else if err_code b = ''INSUFFICIENT_PERMISSIONS'' then INSUFFICIENT_PERMISSIONS
               else if err_code b = ''VALIDATION_ERROR'' then VALIDATION_ERROR
               else if err_code b = ''USER_NOT_FOUND'' then USER_NOT_FOUND
               else if err_code b = ''EMAIL_ALREADY_EXISTS'' then EMAIL_ALREADY_EXISTS
               else UNKNOWN_ERROR))"
proof (intro conjI impI)
  show "code (handleError NoResponse) = Own NETWORK_ERROR"
    and "code (handleError (NotSent m)) = Own UNKNOWN_ERROR"
    by simp_all
next
  assume "api n net svc req = Some (Inl e, svc')"
  then show "\<exists>log. e = Normalized (handleError (net log))" by (rule api_answered)
next
  assume "net (sent svc @ [requestInterceptor svc req]) = out
        \<and> (case statusOf out of None \<Rightarrow> True | Some s \<Rightarrow> \<not> validateStatus s \<and> s \<noteq> 401)"
  then show "api (Suc n) net svc req =
          Some (Inl (Normalized (handleError out)),
                svc\<lparr>sent := sent svc @ [requestInterceptor svc req]\<rparr>)"
    using api_rejected_plain by blast
next
  assume "api n net svc (newRequest ''POST'' ''/api/auth/register'' userData) = Some (Inl e, svc')"
  then show "register n net svc userData = Some (Inl e, svc')"
    unfolding register_def by (rule authenticate_rejected)
next
  assume "api n net svc (newRequest ''POST'' ''/api/auth/register'' userData) = Some (Inr d, svc')
        \<and> \<not> success d"
  then show "register n net svc userData
          = Some (Inl (PlainError (orElse (resp_message d) ''Registration failed'')), svc')"
    unfolding register_def using authenticate_refused by blast
next
  assume "register n net svc userData = Some (Inl e, svc')"
  then show "(api n net svc (newRequest ''POST'' ''/api/auth/register'' userData) = Some (Inl e, svc')
           \<and> (\<exists>log. e = Normalized (handleError (net log))))
        \<or> (\<exists>d. api n net svc (newRequest ''POST'' ''/api/auth/register'' userData) = Some (Inr d, svc')
               \<and> \<not> success d \<and> e = PlainError (orElse (resp_message d) ''Registration failed''))
        \<or> (\<exists>d. api n net svc (newRequest ''POST'' ''/api/auth/register'' userData) = Some (Inr d, svc')
               \<and> success d \<and> data d = None \<and> e = TypeError)"
    unfolding register_def by (rule authenticate_failure)
next
  assume "api n net svc (newRequest ''POST'' ''/api/auth/login'' [(''email'', em), (''password'', pw)])
          = Some (Inl e, svc')"
  then show "login n net svc em pw = Some (Inl e, svc')"
    unfolding login_def by (rule authenticate_rejected)
next
  assume "api n net svc (newRequest ''POST'' ''/api/auth/login'' [(''email'', em), (''password'', pw)])
          = Some (Inr d, svc')
        \<and> \<not> success d"
  then show "login n net svc em pw
          = Some (Inl (PlainError (orElse (resp_message d) ''Login failed'')), svc')"
    unfolding login_def using authenticate_refused by blast
next
  assume "login n net svc em pw = Some (Inl e, svc')"
  then show "(api n net svc (newRequest ''POST'' ''/api/auth/login'' [(''email'', em), (''password'', pw)])
             = Some (Inl e, svc')
           \<and> (\<exists>log. e = Normalized (handleError (net log))))
        \<or> (\<exists>d. api n net svc (newRequest ''POST'' ''/api/auth/login'' [(''email'', em), (''password'', pw)])
                 = Some (Inr d, svc')
               \<and> \<not> success d \<and> e = PlainError (orElse (resp_message d) ''Login failed''))
        \<or> (\<exists>d. api n net svc (newRequest ''POST'' ''/api/auth/login'' [(''email'', em), (''password'', pw)])
                 = Some (Inr d, svc')
               \<and> success d \<and> data d = None \<and> e = TypeError)"
    unfolding login_def by (rule authenticate_failure)
next
  assume "resp_error answer = None"
  then show "code (handleError (Response status answer)) = Own UNKNOWN_ERROR"
    by (simp add: orElse_def mapErrorCode_fallback)
next
  assume a: "resp_error answer = Some b \<and> err_code b \<notin> set objectPrototypeMembers"
  show "code (handleError (Response status answer)) =
          Own (if err_code b = ''INVALID_CREDENTIALS'' then INVALID_CREDENTIALS
               else if err_code b = ''TOKEN_EXPIRED'' then TOKEN_EXPIRED
               else if err_code b = ''INSUFFICIENT_PERMISSIONS'' then INSUFFICIENT_PERMISSIONS
               else if err_code b = ''VALIDATION_ERROR'' then VALIDATION_ERROR
               else if err_code b = ''USER_NOT_FOUND'' then USER_NOT_FOUND
               else if err_code b = ''EMAIL_ALREADY_EXISTS'' then EMAIL_ALREADY_EXISTS
               else UNKNOWN_ERROR)"
  proof (cases "err_code b = []")
    case True
    then show ?thesis using a by (simp add: orElse_def mapErrorCode_fallback)
  next
    case False
    then show ?thesis using a mapErrorCode_cases[of "err_code b"] by (simp add: orElse_def)
  qed
qed

theorem failures_normalized_or_plain_witness:
  "api 1 (scripted [forbidden]) exampleService profileRequest
     = Some (Inl (Normalized (handleError forbidden)),
             exampleService\<lparr>sent := [requestInterceptor exampleService profileRequest]\<rparr>)
   \<and> map_option fst (register 1 (scripted [emailTaken]) signedOutService registration)
       = Some (Inl (PlainError ''Email already registered''))
   \<and> map_option fst (register 1 (scripted [forbidden]) signedOutService registration)
       = Some (Inl (Normalized (handleError forbidden)))
   \<and> code (handleError NoResponse) = Own NETWORK_ERROR
   \<and> code (handleError (Response 429 (envelope False None None (Some ''RATE_LIMITED''))))
       = Own UNKNOWN_ERROR
   \<and> code (handleError (Response 404 (envelope False None None (Some ''USER_NOT_FOUND''))))
       = Own USER_NOT_FOUND
   \<and> code (handleError (Response 500 (envelope False None None None))) = Own UNKNOWN_ERROR"
proof -
  have s: "sent exampleService = []" "sent signedOutService = []"
    by (simp_all add: exampleService_def signedOutService_def newApiService_def
        loadTokensFromStorage_def)
  have f: "case statusOf forbidden of None \<Rightarrow> True | Some s \<Rightarrow> \<not> validateStatus s \<and> s \<noteq> 401"
    by (simp add: forbidden_def validateStatus_def)
  have 1: "api 1 (scripted [forbidden]) exampleService profileRequest
     = Some (Inl (Normalized (handleError forbidden)),
             exampleService\<lparr>sent := [requestInterceptor exampleService profileRequest]\<rparr>)"
    using failures_normalized_or_plain[where net = "scripted [forbidden]" and svc = exampleService
        and req = profileRequest and out = forbidden and n = 0] f s
    by (simp add: scripted_def)
  let ?req = "newRequest ''POST'' ''/api/auth/register'' registration"
  let ?svc1 = "signedOutService\<lparr>sent := [requestInterceptor signedOutService ?req]\<rparr>"
  have e: "emailTaken = Response 200 (envelope False None (Some ''Email already registered'')
                                        (Some ''EMAIL_ALREADY_EXISTS''))"
    by (simp add: emailTaken_def)
  have a: "api 1 (scripted [emailTaken]) signedOutService ?req
             = Some (Inr (envelope False None (Some ''Email already registered'')
                            (Some ''EMAIL_ALREADY_EXISTS'')), ?svc1)"
    using api_fulfilled[where net = "scripted [emailTaken]" and svc = signedOutService
        and req = ?req and status = 200 and n = 0
        and d = "envelope False None (Some ''Email already registered'') (Some ''EMAIL_ALREADY_EXISTS'')"]
      s e
    by (simp add: scripted_def validateStatus_def)
  have nd: "\<not> success (envelope False None (Some ''Email already registered'')
                             (Some ''EMAIL_ALREADY_EXISTS''))"
    by (simp add: envelope_def)
  have "register 1 (scripted [emailTaken]) signedOutService registration
          = Some (Inl (PlainError (orElse (resp_message (envelope False None
                    (Some ''Email already registered'') (Some ''EMAIL_ALREADY_EXISTS'')))
                    ''Registration failed'')), ?svc1)"
    using failures_normalized_or_plain[where net = "scripted [emailTaken]" and svc = signedOutService
        and userData = registration and n = 1 and svc' = ?svc1
        and d = "envelope False None (Some ''Email already registered'') (Some ''EMAIL_ALREADY_EXISTS'')"]
      a nd
    by blast
  then have 2: "map_option fst (register 1 (scripted [emailTaken]) signedOutService registration)
       = Some (Inl (PlainError ''Email already registered''))"
    by (simp add: envelope_def orElse_def)
  have b: "api 1 (scripted [forbidden]) signedOutService ?req
             = Some (Inl (Normalized (handleError forbidden)), ?svc1)"
    using api_rejected_plain[where net = "scripted [forbidden]" and svc = signedOutService
        and req = ?req and out = forbidden and n = 0] f s
    by (simp add: scripted_def)
  have "register 1 (scripted [forbidden]) signedOutService registration
          = Some (Inl (Normalized (handleError forbidden)), ?svc1)"
    using failures_normalized_or_plain[where net = "scripted [forbidden]" and svc = signedOutService
        and userData = registration and n = 1 and svc' = ?svc1
        and e = "Normalized (handleError forbidden)"]
      b
    by blast
  then have 3: "map_option fst (register 1 (scripted [forbidden]) signedOutService registration)
       = Some (Inl (Normalized (handleError forbidden)))"
    by simp
  have 4: "code (handleError NoResponse) = Own NETWORK_ERROR"
    using failures_normalized_or_plain by blast
  have m: "''RATE_LIMITED'' \<notin> set objectPrototypeMembers"
    "''USER_NOT_FOUND'' \<notin> set objectPrototypeMembers"
    by (simp_all add: objectPrototypeMembers_def)
  have r: "resp_error (envelope False None None (Some ''RATE_LIMITED''))
             = Some \<lparr>err_code = ''RATE_LIMITED'', err_message = [], err_details = None\<rparr>"
    "resp_error (envelope False None None (Some ''USER_NOT_FOUND''))
             = Some \<lparr>err_code = ''USER_NOT_FOUND'', err_message = [], err_details = None\<rparr>"
    "resp_error (envelope False None None None) = None"
    by (simp_all add: envelope_def)
  have "code (handleError (Response 429 (envelope False None None (Some ''RATE_LIMITED'')))) =
          Own (if ''RATE_LIMITED'' = ''INVALID_CREDENTIALS'' then INVALID_CREDENTIALS
               else if ''RATE_LIMITED'' = ''TOKEN_EXPIRED'' then TOKEN_EXPIRED
               else if ''RATE_LIMITED'' = ''INSUFFICIENT_PERMISSIONS'' then INSUFFICIENT_PERMISSIONS
               else if ''RATE_LIMITED'' = ''VALIDATION_ERROR'' then VALIDATION_ERROR
               else if ''RATE_LIMITED'' = ''USER_NOT_FOUND'' then USER_NOT_FOUND
               else if ''RATE_LIMITED'' = ''EMAIL_ALREADY_EXISTS'' then EMAIL_ALREADY_EXISTS
               else UNKNOWN_ERROR)"
    using failures_normalized_or_plain[where answer = "envelope False None None (Some ''RATE_LIMITED'')"
        and b = "\<lparr>err_code = ''RATE_LIMITED'', err_message = [], err_details = None\<rparr>"
        and status = 429] m(1) r(1)
    by (simp only: ApiErrorBody.simps) blast
  then have 5: "code (handleError (Response 429 (envelope False None None (Some ''RATE_LIMITED''))))
       = Own UNKNOWN_ERROR"
    by simp
  have "code (handleError (Response 404 (envelope False None None (Some ''USER_NOT_FOUND'')))) =
          Own (if ''USER_NOT_FOUND'' = ''INVALID_CREDENTIALS'' then INVALID_CREDENTIALS
               else if ''USER_NOT_FOUND'' = ''TOKEN_EXPIRED'' then TOKEN_EXPIRED
               else if ''USER_NOT_FOUND'' = ''INSUFFICIENT_PERMISSIONS'' then INSUFFICIENT_PERMISSIONS
               else if ''USER_NOT_FOUND'' = ''VALIDATION_ERROR'' then VALIDATION_ERROR
               else if ''USER_NOT_FOUND'' = ''USER_NOT_FOUND'' then USER_NOT_FOUND
               else if ''USER_NOT_FOUND'' = ''EMAIL_ALREADY_EXISTS'' then EMAIL_ALREADY_EXISTS
               else UNKNOWN_ERROR)"
    using failures_normalized_or_plain[where answer = "envelope False None None (Some ''USER_NOT_FOUND'')"
        and b = "\<lparr>err_code = ''USER_NOT_FOUND'', err_message = [], err_details = None\<rparr>"
        and status = 404] m(2) r(2)
    by (simp only: ApiErrorBody.simps) blast
  then have 6: "code (handleError (Response 404 (envelope False None None (Some ''USER_NOT_FOUND''))))
       = Own USER_NOT_FOUND"
    by simp
  have 7: "code (handleError (Response 500 (envelope False None None None))) = Own UNKNOWN_ERROR"
    using failures_normalized_or_plain[where answer = "envelope False None None None" and status = 500]
      r(3)
    by blast
  show ?thesis using 1 2 3 4 5 6 7 by blast
qed

text \<open>
  C9, as stated, fails twice. register, answered with status 200 and success = false,
  fails with a plain Error that has a message and no code, not with a normalized error.
  And the server code "constructor", which is outside the taxonomy, is not mapped to
  UNKNOWN_ERROR: the code of the normalized error is the member of that name inherited
  from Object.prototype, which is no member of the taxonomy.
\<close>

theorem register_rejected_by_flag_counterexample:
  "map_option fst (register 1 (scripted [emailTaken]) signedOutService registration)
     = Some (Inl (PlainError ''Email already registered''))
   \<and> PlainError ''Email already registered''
       \<noteq> Normalized \<lparr>code = Own EMAIL_ALREADY_EXISTS, message = ''Email already registered'',
                       details = None\<rparr>
   \<and> code (handleError (Response 400 (envelope False None None (Some ''constructor''))))
       = Inherited ''constructor''
   \<and> code (handleError (Response 400 (envelope False None None (Some ''constructor''))))
       \<noteq> Own UNKNOWN_ERROR"
  by code_simp

end
